theory Spec2Isabelle
  imports Main
begin

section \<open>Environment bootstrap (start.js, lines 29-75)\<close>

text \<open>
  A JavaScript value as far as the declared defaults need it: the defaults of
  \<^verbatim>\<open>env_vars\<close> are numbers (3000, 60000) and strings.
\<close>

datatype js_value = JsNum int | JsStr string

text \<open>The decimal digits of a natural number, as \<^verbatim>\<open>String\<close> prints them.\<close>

definition digit :: "nat \<Rightarrow> char" where
  "digit d = ''0123456789'' ! (d mod 10)"

function string_of_nat :: "nat \<Rightarrow> string" where
  "string_of_nat n =
     (if n < 10 then [digit n] else string_of_nat (n div 10) @ [digit (n mod 10)])"
  by pat_completeness auto
termination
  by (relation "measure id") auto

text \<open>
  Assigning to a property of \<^verbatim>\<open>process.env\<close> stores \<^verbatim>\<open>String(value)\<close>.
\<close>

fun to_String :: "js_value \<Rightarrow> string" where
  "to_String (JsStr s) = s"
| "to_String (JsNum i) =
     (if i < 0 then CHR ''-'' # string_of_nat (nat (- i)) else string_of_nat (nat i))"

text \<open>
  \<^verbatim>\<open>new EnvVar(name, required, defaultValue, description)\<close>: the class of
  \<^verbatim>\<open>./classes/EnvVar\<close> keeps its four arguments under these names, which is how the
  loop reads them.
\<close>

record EnvVar =
  name :: string
  required :: bool
  defaultValue :: js_value
  description :: string

type_synonym process_env = "string \<rightharpoonup> string"

definition env_vars :: "EnvVar list" where
  "env_vars =
    [\<lparr>name = ''NODEJS_PORT'', required = False, defaultValue = JsNum 3000,
      description = ''Webserver port of application''\<rparr>,
     \<lparr>name = ''LOGGER_LEVEL'', required = True, defaultValue = JsStr ''3'',
      description = ''Logger level to defined, what should be logged''\<rparr>,
     \<lparr>name = ''TIMEZONE'', required = True, defaultValue = JsStr ''Europe/Berlin'',
      description = ''Set the timezone''\<rparr>,
     \<lparr>name = ''SNAPSHOT_REFRESH_INTERVAL'', required = False, defaultValue = JsNum 60000,
      description = ''Interval to create a new Snapshot''\<rparr>,
     \<lparr>name = ''CREATE_HEAPDUMPS'', required = False, defaultValue = JsStr ''false'',
      description = ''Create Heapdumps of application''\<rparr>]"

text \<open>Lines 29-31: \<^verbatim>\<open>LOGGER_LEVEL\<close> is set to \<^verbatim>\<open>'3'\<close> when it is undefined.\<close>

definition preset_logger_level :: "process_env \<Rightarrow> process_env" where
  "preset_logger_level env =
     (if env ''LOGGER_LEVEL'' = None then env(''LOGGER_LEVEL'' \<mapsto> ''3'') else env)"

text \<open>
  Lines 57-68: the loop over \<^verbatim>\<open>env_vars\<close>, on the pair of \<^verbatim>\<open>process.env\<close>
  and \<^verbatim>\<open>killProcess\<close>. The three branches are in the order of the source.
\<close>

fun manage_env :: "EnvVar list \<Rightarrow> process_env \<times> bool \<Rightarrow> process_env \<times> bool" where
  "manage_env [] st = st"
| "manage_env (e # es) (env, killProcess) =
     (if env (name e) \<noteq> None then manage_env es (env, killProcess)
      else if required e then manage_env es (env, True)
      else manage_env es (env(name e \<mapsto> to_String (defaultValue e)), killProcess))"

text \<open>
  The bootstrap as a whole; the second component says whether
  \<^verbatim>\<open>process.exit\<close> is scheduled (lines 71-75).
\<close>

definition bootstrap_env :: "process_env \<Rightarrow> process_env \<times> bool" where
  "bootstrap_env env = manage_env env_vars (preset_logger_level env, False)"

section \<open>JSON values and \<^verbatim>\<open>JSON.stringify\<close>\<close>

text \<open>
  The object literal of \<^verbatim>\<open>checkJsonDb\<close> is built from objects and strings; an object
  is an association list, in the insertion order that \<^verbatim>\<open>JSON.stringify\<close> follows
  for string keys.
\<close>

datatype json =
    JNull
  | JBool bool
  | JNumber int
  | JString string
  | JArray "json list"
  | JObject "(string \<times> json) list"

definition hex_digit :: "nat \<Rightarrow> char" where
  "hex_digit d = ''0123456789abcdef'' ! (d mod 16)"

text \<open>The string quoting of \<^verbatim>\<open>JSON.stringify\<close> (ECMAScript QuoteJSONString).\<close>

definition escape_char :: "char \<Rightarrow> string" where
  "escape_char c =
     (if c = CHR 0x22 then [CHR 0x5C, CHR 0x22]
      else if c = CHR 0x5C then [CHR 0x5C, CHR 0x5C]
      else if c = CHR 0x08 then [CHR 0x5C, CHR ''b'']
      else if c = CHR 0x0C then [CHR 0x5C, CHR ''f'']
      else if c = CHR 0x0A then [CHR 0x5C, CHR ''n'']
      else if c = CHR 0x0D then [CHR 0x5C, CHR ''r'']
      else if c = CHR 0x09 then [CHR 0x5C, CHR ''t'']
      else if (of_char c :: nat) < 32
        then [CHR 0x5C, CHR ''u'', CHR ''0'', CHR ''0'',
              hex_digit (of_char c div 16), hex_digit (of_char c mod 16)]
      else [c])"

definition quote :: "string \<Rightarrow> string" where
  "quote s = [CHR 0x22] @ concat (map escape_char s) @ [CHR 0x22]"

fun join :: "string \<Rightarrow> string list \<Rightarrow> string" where
  "join sep [] = []"
| "join sep [x] = x"
| "join sep (x # y # ys) = x @ sep @ join sep (y # ys)"

fun JSON_stringify :: "json \<Rightarrow> string" where
  "JSON_stringify JNull = ''null''"
| "JSON_stringify (JBool b) = (if b then ''true'' else ''false'')"
| "JSON_stringify (JNumber i) = to_String (JsNum i)"
| "JSON_stringify (JString s) = quote s"
| "JSON_stringify (JArray xs) = ''['' @ join '','' (map JSON_stringify xs) @ '']''"
| "JSON_stringify (JObject kvs) =
     ''{'' @ join '','' (map (\<lambda>(k, v). quote k @ '':'' @ JSON_stringify v) kvs) @ ''}''"

text \<open>Property access \<^verbatim>\<open>o[k]\<close>; \<open>None\<close> is \<^verbatim>\<open>undefined\<close>.\<close>

fun get_prop :: "json \<Rightarrow> string \<Rightarrow> json option" where
  "get_prop (JObject kvs) k = map_of kvs k"
| "get_prop _ k = None"

fun keys :: "json \<Rightarrow> string list" where
  "keys (JObject kvs) = map fst kvs"
| "keys _ = []"

fun path :: "json \<Rightarrow> string list \<Rightarrow> json option" where
  "path j [] = Some j"
| "path j (k # ks) = (case get_prop j k of None \<Rightarrow> None | Some v \<Rightarrow> path v ks)"

section \<open>The jsondb check (start.js, lines 82-141)\<close>

text \<open>Lines 115-136: the object literal \<^verbatim>\<open>defaultStructure\<close>.\<close>

definition defaultStructure :: json where
  "defaultStructure = JObject
    [(''addresses'', JObject
        [(''srcAddress'', JString ''''),
         (''optionalOutputAddress'', JString '''')]),
     (''states'', JObject
        [(''repeatToLocalNginx'', JObject [(''type'', JString ''stopped'')]),
         (''repeatToOptionalOutput'', JObject [(''type'', JString ''stopped'')])]),
     (''userActions'', JObject
        [(''repeatToLocalNginx'', JString ''stop''),
         (''repeatToOptionalOutput'', JString ''stop'')]),
     (''progresses'', JObject
        [(''repeatToLocalNginx'', JObject []),
         (''repeatToOptionalOutput'', JObject [])])]"

text \<open>The two slot names that key the sections of the document.\<close>

definition slot_names :: "string list" where
  "slot_names = [''repeatToLocalNginx'', ''repeatToOptionalOutput'']"

text \<open>A section of a document is keyed by the slot names when its keys are the two.\<close>

definition keyed_by_slots :: "json \<Rightarrow> string \<Rightarrow> bool" where
  "keyed_by_slots doc sec =
     (case get_prop doc sec of None \<Rightarrow> False | Some v \<Rightarrow> set (keys v) = set slot_names)"

text \<open>
  The file system as \<^verbatim>\<open>checkJsonDb\<close> sees it: what each path holds, and whether
  a write to a path succeeds (a missing or read-only \<^verbatim>\<open>db\<close> directory makes
  \<^verbatim>\<open>fs.writeFileSync\<close> throw when it opens the file, the content untouched).
\<close>

record filesystem =
  files :: "string \<rightharpoonup> string"
  writable :: "string \<Rightarrow> bool"

datatype error =
    ReadError string
  | SyntaxError
  | SchemaError
  | ValidationError "string list"
  | WriteError string
  | TypeError
  | ListenError
  | RestoreError

text \<open>The state of a Q promise.\<close>

datatype 'a promise = Pending | Fulfilled 'a | Rejected error

text \<open>What a call of \<^verbatim>\<open>app.listen\<close> comes to.\<close>

datatype listen_outcome = ComesToListen | ListenFails | ListenThrows

definition schema_path :: string where
  "schema_path = ''conf/jsondb_v1_schema.json''"

definition db_path :: string where
  "db_path = ''db/v1.json''"

definition readFile :: "filesystem \<Rightarrow> string \<Rightarrow> error + string" where
  "readFile fs p = (case files fs p of None \<Rightarrow> Inl (ReadError p) | Some d \<Rightarrow> Inr d)"

definition writeFileSync :: "filesystem \<Rightarrow> string \<Rightarrow> string \<Rightarrow> error + filesystem" where
  "writeFileSync fs p d =
     (if writable fs p then Inr (fs\<lparr>files := (files fs)(p \<mapsto> d)\<rparr>) else Inl (WriteError p))"

text \<open>
  The library functions \<^verbatim>\<open>checkJsonDb\<close> calls are parameters of the model:
  \<^verbatim>\<open>JSON.parse\<close> (\<open>None\<close> when it throws) and the validator of the
  \<^verbatim>\<open>jsonschema\<close> package, which returns the list of validation errors
  (\<open>None\<close> when it throws on the schema). The schema file
  \<^verbatim>\<open>conf/jsondb_v1_schema.json\<close> is data on the disk. Two more parameters belong
  to the startup chain below: what \<^verbatim>\<open>app.listen\<close> does on a port (the server
  comes to listen and the callback runs, or it fails, as when the port is taken, and
  emits an error event that nothing handles, or the call throws, as on a port out of
  range), and whether \<^verbatim>\<open>Restreamer.restoreFFMpegProcesses\<close> throws.
\<close>

record library =
  JSON_parse :: "string \<Rightarrow> json option"
  validate :: "json \<Rightarrow> json \<Rightarrow> string list option"
  listen :: "string option \<Rightarrow> listen_outcome"
  restore_throws :: bool

text \<open>
  Lines 95-112, the two \<^verbatim>\<open>then\<close> handlers: \<open>Inl\<close> is the error that reaches the
  \<^verbatim>\<open>catch\<close> handler, \<open>Inr ()\<close> the branch that logs "v1.db is valid".
\<close>

definition read_and_validate :: "library \<Rightarrow> filesystem \<Rightarrow> error + unit" where
  "read_and_validate lib fs =
     (case readFile fs schema_path of
        Inl e \<Rightarrow> Inl e
      | Inr s \<Rightarrow>
     (case JSON_parse lib s of
        None \<Rightarrow> Inl SyntaxError
      | Some schemadata \<Rightarrow>
     (case readFile fs db_path of
        Inl e \<Rightarrow> Inl e
      | Inr d \<Rightarrow>
     (case JSON_parse lib d of
        None \<Rightarrow> Inl SyntaxError
      | Some dbdata \<Rightarrow>
     (case validate lib dbdata schemadata of
        None \<Rightarrow> Inl SchemaError
      | Some errors \<Rightarrow>
          if length errors > 0 then Inl (ValidationError errors) else Inr ())))))"

text \<open>
  \<^verbatim>\<open>checkJsonDb\<close>: the new file system and the state in which the returned promise
  is left. In the \<^verbatim>\<open>catch\<close> handler \<^verbatim>\<open>deferred.resolve()\<close> comes after
  \<^verbatim>\<open>fs.writeFileSync\<close>: when the write throws, the handler is left before the
  deferred is resolved, and nothing else settles it.
\<close>

definition checkJsonDb :: "library \<Rightarrow> filesystem \<Rightarrow> filesystem \<times> unit promise" where
  "checkJsonDb lib fs =
     (case read_and_validate lib fs of
        Inr _ \<Rightarrow> (fs, Fulfilled ())
      | Inl error \<Rightarrow>
          (case writeFileSync fs db_path (JSON_stringify defaultStructure) of
             Inl e \<Rightarrow> (fs, Pending)
           | Inr fs' \<Rightarrow> (fs', Fulfilled ())))"

text \<open>
  The calls that \<^verbatim>\<open>checkJsonDb\<close> makes to change the disk, in order: none on the
  valid branch, the one \<^verbatim>\<open>fs.writeFileSync\<close> of line 137 in the
  \<^verbatim>\<open>catch\<close> handler.
\<close>

datatype fs_op = WriteFileSync string string | Rename string string

definition checkJsonDb_ops :: "library \<Rightarrow> filesystem \<Rightarrow> fs_op list" where
  "checkJsonDb_ops lib fs =
     (case read_and_validate lib fs of
        Inr _ \<Rightarrow> []
      | Inl error \<Rightarrow> [WriteFileSync db_path (JSON_stringify defaultStructure)])"

text \<open>
  What a path can hold if the process dies while an operation runs, given what it held
  before. \<^verbatim>\<open>fs.writeFileSync\<close> opens the file with flag \<^verbatim>\<open>'w'\<close>, which
  truncates it, and then writes the data front to back: the file holds a prefix of
  the data. A rename replaces the target in one step.
\<close>

fun contents_on_crash :: "fs_op \<Rightarrow> string \<Rightarrow> filesystem \<Rightarrow> string option list" where
  "contents_on_crash (WriteFileSync p d) q fs =
     (if p = q then files fs q # map (\<lambda>n. Some (take n d)) [0 ..< Suc (length d)]
      else [files fs q])"
| "contents_on_crash (Rename a b) q fs =
     (if b = q then [files fs q, files fs a] else [files fs q])"

fun target_after :: "fs_op \<Rightarrow> string \<Rightarrow> filesystem \<Rightarrow> string option" where
  "target_after (WriteFileSync p d) q fs = (if p = q then Some d else files fs q)"
| "target_after (Rename a b) q fs = (if b = q then files fs a else files fs q)"

text \<open>
  An operation is atomic for a path when a crash leaves the path with its previous
  content or with the complete new one.
\<close>

definition atomic_for :: "fs_op \<Rightarrow> string \<Rightarrow> filesystem \<Rightarrow> bool" where
  "atomic_for op q fs =
     list_all (\<lambda>c. c = files fs q \<or> c = target_after op q fs) (contents_on_crash op q fs)"


section \<open>The express application (webserver/app.js)\<close>

text \<open>
  The HTTP server that listens on a port, and the socket.io instance that
  \<^verbatim>\<open>require('socket.io')(server)\<close> binds to it.
\<close>

datatype server = Server "string option"

datatype socket_io = SocketIO server

text \<open>
  A Q deferred. \<^verbatim>\<open>resolve\<close> settles an unresolved deferred and leaves a resolved
  one as it is.
\<close>

datatype 'a deferred = Unresolved | Resolved 'a

fun resolve :: "'a deferred \<Rightarrow> 'a \<Rightarrow> 'a deferred" where
  "resolve Unresolved v = Resolved v"
| "resolve (Resolved w) v = Resolved w"

text \<open>
  The settings of the express application that the two files read and write with
  \<^verbatim>\<open>app.set\<close> and \<^verbatim>\<open>app.get\<close>; \<open>None\<close> is a setting that was never set.
\<close>

record express_app =
  port :: "string option"
  io :: "socket_io option"
  server_address :: "server option"
  websocketsReady :: "socket_io deferred option"

definition express :: express_app where
  "express = \<lparr>port = None, io = None, server_address = None, websocketsReady = None\<rparr>"

text \<open>app.js, lines 113-115.\<close>

definition createPromiseForWebsockets :: "express_app \<Rightarrow> express_app" where
  "createPromiseForWebsockets a = a\<lparr>websocketsReady := Some Unresolved\<rparr>"

text \<open>
  app.js, lines 218-227 and 43-52: of the calls of \<^verbatim>\<open>initAlways\<close> only
  \<^verbatim>\<open>createPromiseForWebsockets\<close> writes a setting modelled here (the others add
  middleware and routes), and both \<^verbatim>\<open>initProd\<close> and \<^verbatim>\<open>initDev\<close> begin with
  \<^verbatim>\<open>initAlways\<close>.
\<close>

definition initAlways :: "express_app \<Rightarrow> express_app" where
  "initAlways a = createPromiseForWebsockets a"

definition RestreamerExpressApp :: express_app where
  "RestreamerExpressApp = initAlways express"

text \<open>
  An object that start.js may hold under the name \<^verbatim>\<open>app\<close>: an express application,
  which has the methods \<^verbatim>\<open>set\<close>, \<^verbatim>\<open>get\<close> and \<^verbatim>\<open>listen\<close>, or an instance
  of the class \<^verbatim>\<open>RestreamerExpressApp\<close>, which keeps the express application in its
  property \<^verbatim>\<open>app\<close> (line 44) and has none of the three methods.
\<close>

datatype required_app =
    ExpressApplication express_app
  | RestreamerExpressAppInstance express_app

fun express_of :: "required_app \<Rightarrow> express_app" where
  "express_of (ExpressApplication a) = a"
| "express_of (RestreamerExpressAppInstance a) = a"

text \<open>
  app.js, lines 256-258: the module exports \<^verbatim>\<open>restreamerApp\<close>, an instance of the
  class.
\<close>

definition restreamerApp :: required_app where
  "restreamerApp = RestreamerExpressAppInstance RestreamerExpressApp"

text \<open>
  app.js, lines 196-213: the method \<^verbatim>\<open>startWebserver\<close> of the class, on the
  settings of \<^verbatim>\<open>this.app\<close> and the environment; its port is
  \<^verbatim>\<open>RS_NODE_PORT\<close>. What \<^verbatim>\<open>app.listen\<close> comes to is an argument; when it
  throws, so does the method, which the rejected result stands for; when the server
  fails to listen the callback never runs.
\<close>

definition app_startWebserver ::
  "listen_outcome \<Rightarrow> process_env \<Rightarrow> express_app \<Rightarrow> express_app \<times> unit promise" where
  "app_startWebserver outcome env a =
     (let a1 = a\<lparr>port := env ''RS_NODE_PORT''\<rparr>
      in case outcome of
           ComesToListen \<Rightarrow>
             (let a2 = a1\<lparr>io := Some (SocketIO (Server (port a1)))\<rparr>;
                  a3 = a2\<lparr>server_address := Some (Server (port a1))\<rparr>
              in case websocketsReady a3 of
                   None \<Rightarrow> (a3, Pending)
                 | Some d \<Rightarrow>
                     (case io a3 of
                        None \<Rightarrow> (a3, Pending)
                      | Some i \<Rightarrow> (a3\<lparr>websocketsReady := Some (resolve d i)\<rparr>, Fulfilled ())))
         | ListenFails \<Rightarrow> (a1, Pending)
         | ListenThrows \<Rightarrow> (a1, Rejected ListenError))"

section \<open>The startup chain (start.js, lines 143-217)\<close>

datatype step =
    StartNginxRTMPServer
  | CheckJsonDb
  | StartWebserver
  | RestoreFFMPEGProcesses
  | GetPublicIp

text \<open>
  What a run leaves behind, in order: the calls of the chain's functions, the server
  coming to listen, the events inside the listen callback, and the error handler.
\<close>

datatype event =
    Call step
  | Listening
  | BindDefaultEvents
  | ResolveWebsocketsReady socket_io
  | Uncaught error
  | LogStartupError error

record world =
  penv :: process_env
  disk :: filesystem
  app :: required_app
  events :: "event list"
  exit_scheduled :: bool
  crashed :: bool

definition emit :: "event \<Rightarrow> world \<Rightarrow> world" where
  "emit e w = w\<lparr>events := events w @ [e]\<rparr>"

text \<open>An exception that nothing catches ends the process.\<close>

definition uncaught :: "error \<Rightarrow> world \<Rightarrow> world" where
  "uncaught e w = (emit (Uncaught e) w)\<lparr>crashed := True\<rparr>"

text \<open>Lines 147-155.\<close>

definition startNginxRTMPServer :: "world \<Rightarrow> world \<times> unit promise" where
  "startNginxRTMPServer w = (emit (Call StartNginxRTMPServer) w, Fulfilled ())"

text \<open>\<^verbatim>\<open>checkJsonDb\<close> as a step of the chain, on the disk of the world.\<close>

definition checkJsonDb_step :: "library \<Rightarrow> world \<Rightarrow> world \<times> unit promise" where
  "checkJsonDb_step lib w =
     (let w1 = emit (Call CheckJsonDb) w;
          r = checkJsonDb lib (disk w1)
      in (w1\<lparr>disk := fst r\<rparr>, snd r))"

text \<open>
  Lines 165-172, the callback of \<^verbatim>\<open>app.listen\<close>, on the express application
  \<open>a\<close>. When the setting \<^verbatim>\<open>websocketsReady\<close> is undefined, \<^verbatim>\<open>.resolve\<close> on
  it throws inside the callback and the deferred of \<^verbatim>\<open>startWebserver\<close> is never
  resolved.
\<close>

definition listen_callback :: "server \<Rightarrow> express_app \<Rightarrow> world \<Rightarrow> world \<times> unit promise" where
  "listen_callback srv a w =
     (let w1 = emit BindDefaultEvents w;
          a2 = a\<lparr>io := Some (SocketIO srv)\<rparr>;
          a3 = a2\<lparr>server_address := Some srv\<rparr>
      in case websocketsReady a3 of
           None \<Rightarrow> (uncaught TypeError (w1\<lparr>app := ExpressApplication a3\<rparr>), Pending)
         | Some d \<Rightarrow>
             (case io a3 of
                None \<Rightarrow> (uncaught TypeError (w1\<lparr>app := ExpressApplication a3\<rparr>), Pending)
              | Some i \<Rightarrow>
                  (emit (ResolveWebsocketsReady i)
                     (w1\<lparr>app := ExpressApplication (a3\<lparr>websocketsReady := Some (resolve d i)\<rparr>)\<rparr>),
                   Fulfilled ())))"

text \<open>
  Lines 161-174. Line 164 calls \<^verbatim>\<open>app.set\<close>: on an instance of the class
  \<^verbatim>\<open>RestreamerExpressApp\<close> there is no such method, the call throws a
  \<^verbatim>\<open>TypeError\<close> inside the handler of the chain, and the handler's promise is
  rejected. On an express application the port is set and \<^verbatim>\<open>app.listen\<close> is
  called: the callback runs when the server has come to listen; when the server fails
  to listen, its error event is not handled, the process ends and the promise is left
  pending; when \<^verbatim>\<open>app.listen\<close> throws, the handler's promise is rejected.
\<close>

definition startWebserver :: "library \<Rightarrow> world \<Rightarrow> world \<times> unit promise" where
  "startWebserver lib w =
     (let w1 = emit (Call StartWebserver) w
      in case app w1 of
           RestreamerExpressAppInstance a \<Rightarrow> (w1, Rejected TypeError)
         | ExpressApplication a \<Rightarrow>
             (let a1 = a\<lparr>port := penv w1 ''NODEJS_PORT''\<rparr>;
                  w2 = w1\<lparr>app := ExpressApplication a1\<rparr>
              in case listen lib (port a1) of
                   ComesToListen \<Rightarrow> listen_callback (Server (port a1)) a1 (emit Listening w2)
                 | ListenFails \<Rightarrow> (uncaught ListenError w2, Pending)
                 | ListenThrows \<Rightarrow> (w2, Rejected ListenError)))"

text \<open>Lines 194-201; the call of line 198 may throw.\<close>

definition restoreFFMPEGProcesses :: "library \<Rightarrow> world \<Rightarrow> world \<times> unit promise" where
  "restoreFFMPEGProcesses lib w =
     (let w1 = emit (Call RestoreFFMPEGProcesses) w
      in if restore_throws lib then (w1, Rejected RestoreError) else (w1, Fulfilled ()))"

text \<open>Lines 179-188: \<^verbatim>\<open>exec\<close> is started and the function returns.\<close>

definition getPublicIp :: "world \<Rightarrow> world \<times> unit promise" where
  "getPublicIp w = (emit (Call GetPublicIp) w, Fulfilled ())"

text \<open>
  A chain of \<^verbatim>\<open>then\<close> handlers: the next handler runs when the promise before it
  is fulfilled; a pending promise stops the chain where it is, a rejected one passes
  the handlers that are left.
\<close>

fun run_chain :: "(world \<Rightarrow> world \<times> unit promise) list \<Rightarrow> world \<Rightarrow> world \<times> unit promise" where
  "run_chain [] w = (w, Fulfilled ())"
| "run_chain (f # fs) w =
     (case f w of
        (w', Fulfilled u) \<Rightarrow> run_chain fs w'
      | (w', Pending) \<Rightarrow> (w', Pending)
      | (w', Rejected e) \<Rightarrow> (w', Rejected e))"

text \<open>Lines 206-217, with the \<^verbatim>\<open>catch\<close> handler that schedules the exit.\<close>

definition startup :: "library \<Rightarrow> world \<Rightarrow> world" where
  "startup lib w =
     (case run_chain
             [startNginxRTMPServer, checkJsonDb_step lib, startWebserver lib,
              checkJsonDb_step lib, restoreFFMPEGProcesses lib, getPublicIp] w of
        (w', Rejected e) \<Rightarrow> (emit (LogStartupError e) w')\<lparr>exit_scheduled := True\<rparr>
      | (w', _) \<Rightarrow> w')"

text \<open>
  start.js from its start, as a function of the object that line 17 binds to
  \<^verbatim>\<open>app\<close>: the environment is managed and the chain runs.
\<close>

definition start_js :: "required_app \<Rightarrow> library \<Rightarrow> process_env \<Rightarrow> filesystem \<Rightarrow> world" where
  "start_js a lib env0 fs =
     startup lib
       \<lparr>penv = fst (bootstrap_env env0), disk = fs, app = a,
        events = [], exit_scheduled = snd (bootstrap_env env0), crashed = False\<rparr>"

text \<open>
  The program: line 17 requires \<^verbatim>\<open>./webserver/app\<close>, which is app.js, and gets what
  that module exports.
\<close>

definition program :: "library \<Rightarrow> process_env \<Rightarrow> filesystem \<Rightarrow> world" where
  "program lib env0 fs = start_js restreamerApp lib env0 fs"


fun resolutions :: "event list \<Rightarrow> socket_io list" where
  "resolutions [] = []"
| "resolutions (ResolveWebsocketsReady i # ev) = i # resolutions ev"
| "resolutions (e # ev) = resolutions ev"


text \<open>Every \<open>b\<close> in the list comes after some \<open>a\<close>.\<close>

fun precedes :: "'a \<Rightarrow> 'a \<Rightarrow> 'a list \<Rightarrow> bool" where
  "precedes a b [] = True"
| "precedes a b (x # xs) = (if x = a then True else if x = b then False else precedes a b xs)"


section \<open>Slot restore\<close>

text \<open>
  \<^verbatim>\<open>restoreFFMPEGProcesses\<close> hands over to \<^verbatim>\<open>Restreamer.restoreFFMpegProcesses\<close>
  of \<^verbatim>\<open>./classes/Restreamer\<close>. The slot is the PipelineSlot of the specification's
  data model.
\<close>

datatype user_intent = Start | Stop

datatype run_state = Stopped | Starting | Started | Stopping | Error

record PipelineSlot =
  slot_name :: string
  userIntent :: user_intent
  runState :: run_state
  progress :: "(string \<times> string) list"
  processHandle :: "nat option"

text \<open>
  Modelled from the spec: the body of \<^verbatim>\<open>Restreamer.restoreFFMpegProcesses\<close>
  (\<^verbatim>\<open>restoreAll\<close> of the specification), whose class file is not among the sources.
  For a slot whose persisted intent is start the subprocess is spawned again (the old
  handle is gone, the new one is \<open>h\<close>), the progress of the new run is empty and the
  slot is driven to starting; a slot whose intent is stop is stopped whatever its
  persisted run state was.
\<close>

definition restore_slot :: "nat \<Rightarrow> PipelineSlot \<Rightarrow> PipelineSlot" where
  "restore_slot h s =
     (case userIntent s of
        Start \<Rightarrow> s\<lparr>runState := Starting, progress := [], processHandle := Some h\<rparr>
      | Stop \<Rightarrow> s\<lparr>runState := Stopped, processHandle := None\<rparr>)"

text \<open>
  Modelled from the spec: \<^verbatim>\<open>restoreAll\<close> goes through the slots once; the handle of
  a spawned subprocess is the position of its slot.
\<close>

definition restoreAll :: "PipelineSlot list \<Rightarrow> PipelineSlot list" where
  "restoreAll slots = map (\<lambda>(h, s). restore_slot h s) (enumerate 0 slots)"

section \<open>Inputs for the concrete runs\<close>

text \<open>
  A parser that knows two texts, the default document and the empty object, and a
  validator that asks for the four top-level keys.
\<close>

definition sample_lib :: library where
  "sample_lib =
     \<lparr>JSON_parse = (\<lambda>s. if s = JSON_stringify defaultStructure then Some defaultStructure
                        else if s = ''{}'' then Some (JObject []) else None),
      validate = (\<lambda>d schema.
         Some (if keys d = [''addresses'', ''states'', ''userActions'', ''progresses'']
               then [] else [''requires property''])),
      listen = (\<lambda>p. ComesToListen),
      restore_throws = False\<rparr>"

text \<open>A disk with the schema file and no database file.\<close>

definition fresh_disk :: filesystem where
  "fresh_disk = \<lparr>files = [schema_path \<mapsto> ''{}''], writable = (\<lambda>p. True)\<rparr>"

text \<open>The same disk with a \<^verbatim>\<open>db\<close> directory that cannot be written.\<close>

definition readonly_disk :: filesystem where
  "readonly_disk = \<lparr>files = [schema_path \<mapsto> ''{}''], writable = (\<lambda>p. False)\<rparr>"

text \<open>A disk whose database file holds the default document.\<close>

definition default_disk :: filesystem where
  "default_disk =
     \<lparr>files = [schema_path \<mapsto> ''{}'', db_path \<mapsto> JSON_stringify defaultStructure],
      writable = (\<lambda>p. True)\<rparr>"

text \<open>A disk whose database file was cut off in the middle of a document.\<close>

definition corrupt_disk :: filesystem where
  \<open>corrupt_disk =
     \<lparr>files = [schema_path \<mapsto> ''{}'', db_path \<mapsto> ''{"addresses"''],
      writable = (\<lambda>p. True)\<rparr>\<close>

text \<open>
  The persisted slots of the specification's restore example: the first was running
  with intent start, the second was left in error with intent stop.
\<close>

definition persisted_slots :: "PipelineSlot list" where
  "persisted_slots =
     [\<lparr>slot_name = ''repeatToLocalNginx'', userIntent = Start, runState = Started,
       progress = [(''frame'', ''42'')], processHandle = None\<rparr>,
      \<lparr>slot_name = ''repeatToOptionalOutput'', userIntent = Stop, runState = Error,
       progress = [], processHandle = None\<rparr>]"

text \<open>An environment with the one variable that has to be set.\<close>

definition sample_env :: process_env where
  "sample_env = [''TIMEZONE'' \<mapsto> ''Europe/Berlin'']"

section \<open>Properties of the environment bootstrap\<close>

lemma manage_env_value:
  "fst (manage_env es (env, b)) k =
     (case env k of
        Some v \<Rightarrow> Some v
      | None \<Rightarrow> map_option (\<lambda>e. to_String (defaultValue e))
                  (find (\<lambda>e. name e = k \<and> \<not> required e) es))"
  by (induction es arbitrary: env b) (auto split: option.splits)

lemma manage_env_kill:
  "distinct (map name es) \<Longrightarrow>
   snd (manage_env es (env, b)) \<longleftrightarrow> b \<or> (\<exists>e \<in> set es. required e \<and> env (name e) = None)"
proof (induction es arbitrary: env b)
  case Nil
  then show ?case by simp
next
  case (Cons e es)
  from Cons.prems have d: "distinct (map name es)"
    by simp
  from Cons.prems have fresh: "\<forall>x \<in> set es. name x \<noteq> name e"
    by (fastforce simp: image_iff)
  show ?case
  proof (cases "env (name e)")
    case (Some v)
    then show ?thesis using Cons.IH [OF d] by auto
  next
    case None
    show ?thesis
    proof (cases "required e")
      case True
      then show ?thesis using None Cons.IH [OF d] by auto
    next
      case False
      then show ?thesis using None fresh Cons.IH [OF d] by auto
    qed
  qed
qed

lemma env_vars_names:
  "map name env_vars =
     [''NODEJS_PORT'', ''LOGGER_LEVEL'', ''TIMEZONE'', ''SNAPSHOT_REFRESH_INTERVAL'',
      ''CREATE_HEAPDUMPS'']"
  by (simp add: env_vars_def)

lemma env_vars_distinct: "distinct (map name env_vars)"
  unfolding env_vars_names by simp

lemma bootstrap_env_kill: "snd (bootstrap_env env) \<longleftrightarrow> env ''TIMEZONE'' = None"
  unfolding bootstrap_env_def manage_env_kill [OF env_vars_distinct]
  by (auto simp: env_vars_def preset_logger_level_def)

lemma default_strings:
  "to_String (JsNum 3000) = ''3000''" "to_String (JsNum 60000) = ''60000''"
  by (simp_all add: digit_def)

lemma declared_default:
  "map_option (\<lambda>e. to_String (defaultValue e))
     (find (\<lambda>e. name e = k \<and> \<not> required e) env_vars) =
     (if k = ''NODEJS_PORT'' then Some ''3000''
      else if k = ''SNAPSHOT_REFRESH_INTERVAL'' then Some ''60000''
      else if k = ''CREATE_HEAPDUMPS'' then Some ''false''
      else None)"
  by (simp add: env_vars_def default_strings del: to_String.simps(2))

lemma bootstrap_env_fst:
  "fst (bootstrap_env env) k =
     (case env k of
        Some v \<Rightarrow> Some v
      | None \<Rightarrow>
          if k = ''NODEJS_PORT'' then Some ''3000''
          else if k = ''LOGGER_LEVEL'' then Some ''3''
          else if k = ''SNAPSHOT_REFRESH_INTERVAL'' then Some ''60000''
          else if k = ''CREATE_HEAPDUMPS'' then Some ''false''
          else None)"
proof -
  have "fst (bootstrap_env env) k =
     (case preset_logger_level env k of
        Some v \<Rightarrow> Some v
      | None \<Rightarrow> map_option (\<lambda>e. to_String (defaultValue e))
                  (find (\<lambda>e. name e = k \<and> \<not> required e) env_vars))"
    by (simp only: bootstrap_env_def manage_env_value)
  then show ?thesis
    unfolding declared_default
    by (simp add: preset_logger_level_def split: option.splits)
qed

lemma bootstrap_env_kept:
  "env k = Some v \<Longrightarrow> fst (bootstrap_env env) k = Some v"
  by (simp add: bootstrap_env_fst)

lemma bootstrap_env_default:
  "\<forall>e \<in> set env_vars. env (name e) = None \<and> \<not> required e \<longrightarrow>
     fst (bootstrap_env env) (name e) = Some (to_String (defaultValue e))"
  by (simp add: env_vars_def bootstrap_env_fst default_strings del: to_String.simps(2))

lemma bootstrap_env_required_unset:
  "(\<exists>e \<in> set env_vars. required e \<and> fst (bootstrap_env env) (name e) = None)
     \<longleftrightarrow> env ''TIMEZONE'' = None"
  by (simp add: env_vars_def bootstrap_env_fst split: option.splits)

text \<open>
  C8. For every declared variable, a value that is set is kept, and an unset variable
  that is not required gets its declared default (as the string that
  \<^verbatim>\<open>process.env\<close> stores); the exit is scheduled exactly when a required variable
  is still unset after the loop, and, \<^verbatim>\<open>LOGGER_LEVEL\<close> having been preset, exactly
  when \<^verbatim>\<open>TIMEZONE\<close> is unset.
\<close>

theorem bootstrap_env_declared:
  "(\<forall>e \<in> set env_vars.
      (\<forall>v. env (name e) = Some v \<longrightarrow> fst (bootstrap_env env) (name e) = Some v) \<and>
      (env (name e) = None \<and> \<not> required e \<longrightarrow>
         fst (bootstrap_env env) (name e) = Some (to_String (defaultValue e)))) \<and>
   (snd (bootstrap_env env) \<longleftrightarrow>
      (\<exists>e \<in> set env_vars. required e \<and> fst (bootstrap_env env) (name e) = None)) \<and>
   (snd (bootstrap_env env) \<longleftrightarrow> env ''TIMEZONE'' = None)"
proof (intro conjI ballI allI)
  fix e v
  show "env (name e) = Some v \<longrightarrow> fst (bootstrap_env env) (name e) = Some v"
    by (simp add: bootstrap_env_kept)
next
  fix e
  assume "e \<in> set env_vars"
  then show "env (name e) = None \<and> \<not> required e \<longrightarrow>
         fst (bootstrap_env env) (name e) = Some (to_String (defaultValue e))"
    using bootstrap_env_default [of env] by (rule_tac bspec)
next
  show "snd (bootstrap_env env) \<longleftrightarrow>
      (\<exists>e \<in> set env_vars. required e \<and> fst (bootstrap_env env) (name e) = None)"
    by (simp only: bootstrap_env_kill bootstrap_env_required_unset)
next
  show "snd (bootstrap_env env) \<longleftrightarrow> env ''TIMEZONE'' = None"
    by (rule bootstrap_env_kill)
qed

theorem bootstrap_env_declared_witness:
  "fst (bootstrap_env [''TIMEZONE'' \<mapsto> ''UTC'', ''NODEJS_PORT'' \<mapsto> ''8080'']) ''NODEJS_PORT''
     = Some ''8080'' \<and>
   fst (bootstrap_env [''TIMEZONE'' \<mapsto> ''UTC'', ''NODEJS_PORT'' \<mapsto> ''8080'']) ''CREATE_HEAPDUMPS''
     = Some ''false'' \<and>
   \<not> snd (bootstrap_env [''TIMEZONE'' \<mapsto> ''UTC'', ''NODEJS_PORT'' \<mapsto> ''8080''])"
proof -
  let ?env = "[''TIMEZONE'' \<mapsto> ''UTC'', ''NODEJS_PORT'' \<mapsto> ''8080'']"
  note spec = bootstrap_env_declared [of ?env, unfolded env_vars_def, simplified]
  from spec show ?thesis by (elim conjE) (intro conjI; assumption)
qed

section \<open>Properties of the jsondb check\<close>

lemma paths_differ: "schema_path \<noteq> db_path"
  by (simp add: schema_path_def db_path_def)

lemma checkJsonDb_cases:
  "checkJsonDb lib fs =
     (if read_and_validate lib fs = Inr () then (fs, Fulfilled ())
      else if writable fs db_path
        then (fs\<lparr>files := (files fs)(db_path \<mapsto> JSON_stringify defaultStructure)\<rparr>, Fulfilled ())
        else (fs, Pending))"
  by (simp add: checkJsonDb_def writeFileSync_def split: sum.splits)

lemma read_and_validate_Inr_iff:
  "read_and_validate lib fs = Inr u \<longleftrightarrow>
     (\<exists>s schemadata d dbdata.
        files fs schema_path = Some s \<and> JSON_parse lib s = Some schemadata \<and>
        files fs db_path = Some d \<and> JSON_parse lib d = Some dbdata \<and>
        validate lib dbdata schemadata = Some [])"
  by (auto simp: read_and_validate_def readFile_def split: option.splits sum.splits)

lemma default_bytes:
  \<open>JSON_stringify defaultStructure = ''{"addresses":{"srcAddress":"","optionalOutputAddress":""},"states":{"repeatToLocalNginx":{"type":"stopped"},"repeatToOptionalOutput":{"type":"stopped"}},"userActions":{"repeatToLocalNginx":"stop","repeatToOptionalOutput":"stop"},"progresses":{"repeatToLocalNginx":{},"repeatToOptionalOutput":{}}}''\<close>
  by (simp add: defaultStructure_def quote_def escape_char_def)

lemma sample_parse_default:
  "JSON_parse sample_lib (JSON_stringify defaultStructure) = Some defaultStructure"
  by (simp add: sample_lib_def)

lemma sample_parse_schema: "JSON_parse sample_lib ''{}'' = Some (JObject [])"
  by (simp add: sample_lib_def default_bytes)

lemma sample_parse_cut: \<open>JSON_parse sample_lib ''{"addresses"'' = None\<close>
  by (simp add: sample_lib_def default_bytes)

lemma sample_validate_default: "validate sample_lib defaultStructure schema = Some []"
  by (simp add: sample_lib_def defaultStructure_def)

lemma fresh_disk_invalid: "read_and_validate sample_lib fresh_disk \<noteq> Inr ()"
  by (simp add: read_and_validate_Inr_iff fresh_disk_def paths_differ [symmetric])

lemma readonly_disk_invalid: "read_and_validate sample_lib readonly_disk \<noteq> Inr ()"
  by (simp add: read_and_validate_Inr_iff readonly_disk_def paths_differ [symmetric])

lemma corrupt_disk_invalid: "read_and_validate sample_lib corrupt_disk \<noteq> Inr ()"
  by (simp add: read_and_validate_Inr_iff corrupt_disk_def paths_differ sample_parse_cut)

lemma default_disk_valid: "read_and_validate sample_lib default_disk = Inr ()"
  unfolding read_and_validate_Inr_iff
  by (simp add: default_disk_def paths_differ sample_parse_schema sample_parse_default
      sample_validate_default)


text \<open>
  C1, amended. When the database file cannot be read, parsed or validated and the
  write of the default document goes through, the file holds the default document
  afterwards and the promise of \<^verbatim>\<open>checkJsonDb\<close> is resolved; on the valid branch
  it is resolved as well.
\<close>

theorem checkJsonDb_settles:
  assumes "writable fs db_path \<or> read_and_validate lib fs = Inr ()"
  shows "snd (checkJsonDb lib fs) = Fulfilled () \<and>
         ((files fs db_path = None \<or>
           (\<exists>d. files fs db_path = Some d \<and>
              (JSON_parse lib d = None \<or>
               (\<exists>dbdata. JSON_parse lib d = Some dbdata \<and>
                  (\<forall>s schemadata.
                      files fs schema_path = Some s \<longrightarrow>
                      JSON_parse lib s = Some schemadata \<longrightarrow>
                      validate lib dbdata schemadata \<noteq> Some [])))))
          \<longrightarrow> files (fst (checkJsonDb lib fs)) db_path =
                Some (JSON_stringify defaultStructure))"
proof -
  have res: "snd (checkJsonDb lib fs) = Fulfilled ()"
    using assms by (auto simp: checkJsonDb_cases)
  have "files (fst (checkJsonDb lib fs)) db_path = Some (JSON_stringify defaultStructure)"
    if "read_and_validate lib fs \<noteq> Inr ()"
    using that assms by (simp add: checkJsonDb_cases)
  moreover have "read_and_validate lib fs \<noteq> Inr ()"
    if "files fs db_path = None \<or>
           (\<exists>d. files fs db_path = Some d \<and>
              (JSON_parse lib d = None \<or>
               (\<exists>dbdata. JSON_parse lib d = Some dbdata \<and>
                  (\<forall>s schemadata.
                      files fs schema_path = Some s \<longrightarrow>
                      JSON_parse lib s = Some schemadata \<longrightarrow>
                      validate lib dbdata schemadata \<noteq> Some []))))"
    using that unfolding read_and_validate_Inr_iff by auto
  ultimately show ?thesis using res by blast
qed

theorem checkJsonDb_settles_witness:
  "writable fresh_disk db_path \<and> files fresh_disk db_path = None \<and>
   snd (checkJsonDb sample_lib fresh_disk) = Fulfilled () \<and>
   files (fst (checkJsonDb sample_lib fresh_disk)) db_path =
     Some (JSON_stringify defaultStructure)"
proof -
  have w: "writable fresh_disk db_path" by (simp add: fresh_disk_def)
  have absent: "files fresh_disk db_path = None"
    by (simp add: fresh_disk_def paths_differ [symmetric])
  from checkJsonDb_settles [of fresh_disk sample_lib] w absent show ?thesis by blast
qed

text \<open>
  C1, as stated: the promise of \<^verbatim>\<open>checkJsonDb\<close> always resolves and a failed load
  always ends with the default document on the disk. With no database file and a
  \<^verbatim>\<open>db\<close> directory that cannot be written, the write throws in the
  \<^verbatim>\<open>catch\<close> handler: the promise stays pending and there is still no file.
\<close>

theorem checkJsonDb_pending_counterexample:
  "files readonly_disk db_path = None \<and>
   snd (checkJsonDb sample_lib readonly_disk) = Pending \<and>
   files (fst (checkJsonDb sample_lib readonly_disk)) db_path = None"
proof -
  have absent: "files readonly_disk db_path = None"
    by (simp add: readonly_disk_def paths_differ [symmetric])
  have "checkJsonDb sample_lib readonly_disk = (readonly_disk, Pending)"
    using readonly_disk_invalid by (simp add: checkJsonDb_cases readonly_disk_def)
  with absent show ?thesis by simp
qed

text \<open>
  C5. A database file that parses and validates against the schema is left as it is:
  \<^verbatim>\<open>checkJsonDb\<close> resolves, makes no write, and the file system, with the bytes
  of the file, is the one it found.
\<close>

theorem checkJsonDb_valid_unchanged:
  assumes "files fs schema_path = Some s" and "JSON_parse lib s = Some schemadata"
    and "files fs db_path = Some d" and "JSON_parse lib d = Some dbdata"
    and "validate lib dbdata schemadata = Some []"
  shows "checkJsonDb lib fs = (fs, Fulfilled ()) \<and> checkJsonDb_ops lib fs = [] \<and>
         files (fst (checkJsonDb lib fs)) db_path = Some d"
proof -
  from assms have "read_and_validate lib fs = Inr ()"
    unfolding read_and_validate_Inr_iff by blast
  with assms(3) show ?thesis
    by (simp add: checkJsonDb_cases checkJsonDb_ops_def)
qed

theorem checkJsonDb_valid_unchanged_witness:
  "files default_disk schema_path = Some ''{}'' \<and>
   JSON_parse sample_lib ''{}'' = Some (JObject []) \<and>
   files default_disk db_path = Some (JSON_stringify defaultStructure) \<and>
   JSON_parse sample_lib (JSON_stringify defaultStructure) = Some defaultStructure \<and>
   validate sample_lib defaultStructure (JObject []) = Some [] \<and>
   checkJsonDb sample_lib default_disk = (default_disk, Fulfilled ()) \<and>
   checkJsonDb_ops sample_lib default_disk = [] \<and>
   files (fst (checkJsonDb sample_lib default_disk)) db_path =
     Some (JSON_stringify defaultStructure)"
proof -
  have 1: "files default_disk schema_path = Some ''{}''"
    by (simp add: default_disk_def paths_differ)
  have 3: "files default_disk db_path = Some (JSON_stringify defaultStructure)"
    by (simp add: default_disk_def)
  note run = checkJsonDb_valid_unchanged
    [OF 1 sample_parse_schema 3 sample_parse_default sample_validate_default]
  from 1 3 sample_parse_schema sample_parse_default sample_validate_default run
  show ?thesis by blast
qed

text \<open>
  C9. When one run of \<^verbatim>\<open>checkJsonDb\<close> has completed, a second run on the disk it
  left completes as well and leaves that disk as it is.
\<close>

theorem checkJsonDb_twice:
  assumes "snd (checkJsonDb lib fs) = Fulfilled ()"
  shows "checkJsonDb lib (fst (checkJsonDb lib fs)) = (fst (checkJsonDb lib fs), Fulfilled ())"
proof (cases "read_and_validate lib fs = Inr ()")
  case True
  then show ?thesis by (simp add: checkJsonDb_cases)
next
  case False
  with assms have w: "writable fs db_path"
    by (simp add: checkJsonDb_cases split: if_splits)
  define fs1 where "fs1 = fs\<lparr>files := (files fs)(db_path \<mapsto> JSON_stringify defaultStructure)\<rparr>"
  have first: "checkJsonDb lib fs = (fs1, Fulfilled ())"
    using False w by (simp add: checkJsonDb_cases fs1_def)
  have same: "fs1\<lparr>files := (files fs1)(db_path \<mapsto> JSON_stringify defaultStructure)\<rparr> = fs1"
    by (simp add: fs1_def)
  have w1: "writable fs1 db_path"
    using w by (simp add: fs1_def)
  show ?thesis
    unfolding first using same w1 by (simp add: checkJsonDb_cases [of lib fs1])
qed

theorem checkJsonDb_twice_witness:
  "snd (checkJsonDb sample_lib corrupt_disk) = Fulfilled () \<and>
   checkJsonDb sample_lib (fst (checkJsonDb sample_lib corrupt_disk)) =
     (fst (checkJsonDb sample_lib corrupt_disk), Fulfilled ()) \<and>
   files (fst (checkJsonDb sample_lib corrupt_disk)) db_path =
     Some (JSON_stringify defaultStructure)"
proof -
  have first: "checkJsonDb sample_lib corrupt_disk =
      (corrupt_disk\<lparr>files := (files corrupt_disk)(db_path \<mapsto> JSON_stringify defaultStructure)\<rparr>,
       Fulfilled ())"
    using corrupt_disk_invalid
    by (simp add: checkJsonDb_cases) (simp add: corrupt_disk_def)
  then have res: "snd (checkJsonDb sample_lib corrupt_disk) = Fulfilled ()"
    by simp
  from checkJsonDb_twice [OF res] res first show ?thesis by simp
qed


section \<open>The default document\<close>

text \<open>
  C4. The default document has the four sections, in which both slots are in state
  stopped with user action stop, the two addresses are empty strings and the progress
  of both slots is an empty object. When the database file is absent or cannot be
  parsed, and whenever the load is not valid, \<^verbatim>\<open>checkJsonDb\<close> makes one write,
  of this document onto the database file, and when the write goes through the file
  holds its bytes; it is the only document \<^verbatim>\<open>checkJsonDb\<close> writes.
\<close>

theorem defaultStructure_content:
  \<open>keys defaultStructure = [''addresses'', ''states'', ''userActions'', ''progresses''] \<and>
   path defaultStructure [''states'', ''repeatToLocalNginx''] =
     Some (JObject [(''type'', JString ''stopped'')]) \<and>
   path defaultStructure [''states'', ''repeatToOptionalOutput''] =
     Some (JObject [(''type'', JString ''stopped'')]) \<and>
   path defaultStructure [''userActions'', ''repeatToLocalNginx''] = Some (JString ''stop'') \<and>
   path defaultStructure [''userActions'', ''repeatToOptionalOutput''] = Some (JString ''stop'') \<and>
   path defaultStructure [''addresses''] =
     Some (JObject [(''srcAddress'', JString []), (''optionalOutputAddress'', JString [])]) \<and>
   path defaultStructure [''progresses'', ''repeatToLocalNginx''] = Some (JObject []) \<and>
   path defaultStructure [''progresses'', ''repeatToOptionalOutput''] = Some (JObject []) \<and>
   map (\<lambda>sec. map_option keys (get_prop defaultStructure sec))
     [''states'', ''userActions'', ''progresses''] =
     [Some slot_names, Some slot_names, Some slot_names] \<and>
   JSON_stringify defaultStructure =
     ''{"addresses":{"srcAddress":"","optionalOutputAddress":""},"states":{"repeatToLocalNginx":{"type":"stopped"},"repeatToOptionalOutput":{"type":"stopped"}},"userActions":{"repeatToLocalNginx":"stop","repeatToOptionalOutput":"stop"},"progresses":{"repeatToLocalNginx":{},"repeatToOptionalOutput":{}}}'' \<and>
   (files fs db_path = None \<or>
    (\<exists>d. files fs db_path = Some d \<and> JSON_parse lib d = None) \<or>
    read_and_validate lib fs \<noteq> Inr () \<longrightarrow>
      checkJsonDb_ops lib fs = [WriteFileSync db_path (JSON_stringify defaultStructure)] \<and>
      (writable fs db_path \<longrightarrow>
         files (fst (checkJsonDb lib fs)) db_path = Some (JSON_stringify defaultStructure))) \<and>
   (checkJsonDb_ops lib fs = [] \<or>
    checkJsonDb_ops lib fs = [WriteFileSync db_path (JSON_stringify defaultStructure)])\<close>
proof -
  have only: "checkJsonDb_ops lib fs = [] \<or>
    checkJsonDb_ops lib fs = [WriteFileSync db_path (JSON_stringify defaultStructure)]"
    by (simp add: checkJsonDb_ops_def split: sum.splits)
  have invalid: "read_and_validate lib fs \<noteq> Inr ()"
    if "files fs db_path = None \<or>
        (\<exists>d. files fs db_path = Some d \<and> JSON_parse lib d = None) \<or>
        read_and_validate lib fs \<noteq> Inr ()"
    using that unfolding read_and_validate_Inr_iff by auto
  have written:
    "checkJsonDb_ops lib fs = [WriteFileSync db_path (JSON_stringify defaultStructure)] \<and>
     (writable fs db_path \<longrightarrow>
        files (fst (checkJsonDb lib fs)) db_path = Some (JSON_stringify defaultStructure))"
    if "read_and_validate lib fs \<noteq> Inr ()"
    using that by (simp add: checkJsonDb_cases checkJsonDb_ops_def split: sum.splits)
  from invalid written have link:
    "files fs db_path = None \<or>
     (\<exists>d. files fs db_path = Some d \<and> JSON_parse lib d = None) \<or>
     read_and_validate lib fs \<noteq> Inr () \<longrightarrow>
       checkJsonDb_ops lib fs = [WriteFileSync db_path (JSON_stringify defaultStructure)] \<and>
       (writable fs db_path \<longrightarrow>
          files (fst (checkJsonDb lib fs)) db_path = Some (JSON_stringify defaultStructure))"
    by blast
  have content:
    "keys defaultStructure = [''addresses'', ''states'', ''userActions'', ''progresses''] \<and>
     path defaultStructure [''states'', ''repeatToLocalNginx''] =
       Some (JObject [(''type'', JString ''stopped'')]) \<and>
     path defaultStructure [''states'', ''repeatToOptionalOutput''] =
       Some (JObject [(''type'', JString ''stopped'')]) \<and>
     path defaultStructure [''userActions'', ''repeatToLocalNginx''] = Some (JString ''stop'') \<and>
     path defaultStructure [''userActions'', ''repeatToOptionalOutput''] = Some (JString ''stop'') \<and>
     path defaultStructure [''addresses''] =
       Some (JObject [(''srcAddress'', JString []), (''optionalOutputAddress'', JString [])]) \<and>
     path defaultStructure [''progresses'', ''repeatToLocalNginx''] = Some (JObject []) \<and>
     path defaultStructure [''progresses'', ''repeatToOptionalOutput''] = Some (JObject []) \<and>
     map (\<lambda>sec. map_option keys (get_prop defaultStructure sec))
       [''states'', ''userActions'', ''progresses''] =
       [Some slot_names, Some slot_names, Some slot_names]"
    by (simp add: defaultStructure_def slot_names_def)
  from content default_bytes link only show ?thesis
    by (intro conjI) (elim conjE, assumption)+
qed

theorem defaultStructure_content_witness:
  \<open>files fresh_disk db_path = None \<and> writable fresh_disk db_path \<and>
   checkJsonDb_ops sample_lib fresh_disk =
     [WriteFileSync db_path (JSON_stringify defaultStructure)] \<and>
   files (fst (checkJsonDb sample_lib fresh_disk)) db_path =
     Some ''{"addresses":{"srcAddress":"","optionalOutputAddress":""},"states":{"repeatToLocalNginx":{"type":"stopped"},"repeatToOptionalOutput":{"type":"stopped"}},"userActions":{"repeatToLocalNginx":"stop","repeatToOptionalOutput":"stop"},"progresses":{"repeatToLocalNginx":{},"repeatToOptionalOutput":{}}}'' \<and>
   files corrupt_disk db_path = Some ''{"addresses"'' \<and>
   JSON_parse sample_lib ''{"addresses"'' = None \<and> writable corrupt_disk db_path \<and>
   files (fst (checkJsonDb sample_lib corrupt_disk)) db_path =
     Some (JSON_stringify defaultStructure)\<close>
proof -
  have absent: "files fresh_disk db_path = None"
    by (simp add: fresh_disk_def paths_differ [symmetric])
  have w: "writable fresh_disk db_path" "writable corrupt_disk db_path"
    by (simp_all add: fresh_disk_def corrupt_disk_def)
  have cut: \<open>files corrupt_disk db_path = Some ''{"addresses"''\<close>
    by (simp add: corrupt_disk_def)
  note fresh = defaultStructure_content [of fresh_disk sample_lib]
  note corrupt = defaultStructure_content [of corrupt_disk sample_lib]
  from fresh absent w(1)
  have 1: "checkJsonDb_ops sample_lib fresh_disk =
       [WriteFileSync db_path (JSON_stringify defaultStructure)] \<and>
     files (fst (checkJsonDb sample_lib fresh_disk)) db_path =
       Some (JSON_stringify defaultStructure)"
    by blast
  from corrupt cut sample_parse_cut w(2)
  have 2: "files (fst (checkJsonDb sample_lib corrupt_disk)) db_path =
       Some (JSON_stringify defaultStructure)"
    by blast
  from 1 2 absent w cut sample_parse_cut show ?thesis
    unfolding default_bytes by simp
qed

text \<open>
  C2, as stated: each of the four sections of the document written on fallback is
  keyed by the two slot names. The section \<^verbatim>\<open>addresses\<close> is not.
\<close>

theorem addresses_keys_counterexample:
  "\<not> keyed_by_slots defaultStructure ''addresses''"
  by (simp add: keyed_by_slots_def defaultStructure_def slot_names_def doubleton_eq_iff)

text \<open>
  C2, amended. In the document written on fallback the sections \<^verbatim>\<open>states\<close>,
  \<^verbatim>\<open>userActions\<close> and \<^verbatim>\<open>progresses\<close> are keyed by the two slot names; the
  section \<^verbatim>\<open>addresses\<close> is keyed by \<^verbatim>\<open>srcAddress\<close> and
  \<^verbatim>\<open>optionalOutputAddress\<close>.
\<close>

theorem defaultStructure_keys:
  "keyed_by_slots defaultStructure ''states'' \<and>
   keyed_by_slots defaultStructure ''userActions'' \<and>
   keyed_by_slots defaultStructure ''progresses'' \<and>
   map_option keys (get_prop defaultStructure ''addresses'') =
     Some [''srcAddress'', ''optionalOutputAddress'']"
  by (simp add: keyed_by_slots_def defaultStructure_def slot_names_def)

section \<open>The write of the default document\<close>

lemma stringify_object_length: "2 \<le> length (JSON_stringify (JObject kvs))"
  by simp

lemma write_crash_prefix:
  assumes "n \<le> length d"
  shows "Some (take n d) \<in> set (contents_on_crash (WriteFileSync p d) p fs)"
proof -
  from assms have "n \<in> {0 ..< Suc (length d)}"
    by simp
  then have "Some (take n d) \<in> (\<lambda>n. Some (take n d)) ` {0 ..< Suc (length d)}"
    by (rule imageI)
  then show ?thesis
    by (simp del: upt_Suc)
qed

lemma write_not_atomic:
  assumes "2 \<le> length d"
  shows "\<not> atomic_for (WriteFileSync p d) p fs"
proof
  assume "atomic_for (WriteFileSync p d) p fs"
  then have "\<forall>c \<in> set (contents_on_crash (WriteFileSync p d) p fs).
      c = files fs p \<or> c = target_after (WriteFileSync p d) p fs"
    unfolding atomic_for_def list_all_iff .
  moreover have "target_after (WriteFileSync p d) p fs = Some d"
    by simp
  ultimately have either: "c = files fs p \<or> c = Some d"
    if "c \<in> set (contents_on_crash (WriteFileSync p d) p fs)" for c
    using that by metis
  have "Some (take 0 d) \<in> set (contents_on_crash (WriteFileSync p d) p fs)"
    by (rule write_crash_prefix) simp
  from either [OF this] assms have empty: "files fs p = Some []"
    by auto
  have "Some (take 1 d) \<in> set (contents_on_crash (WriteFileSync p d) p fs)"
    using assms by (intro write_crash_prefix) simp
  from either [OF this] have "take 1 d = [] \<or> take 1 d = d"
    unfolding empty by auto
  moreover have "length (take 1 d) = 1"
    using assms by simp
  ultimately show False
    using assms by (metis One_nat_def length_0_conv nat.simps(3) numeral_le_one_iff semiring_norm(69))
qed

text \<open>
  C6, as stated: every write of the persisted document is atomic. The write that
  \<^verbatim>\<open>checkJsonDb\<close> makes on a disk with a broken database file is not.
\<close>

theorem write_atomic_counterexample:
  "checkJsonDb_ops sample_lib corrupt_disk =
     [WriteFileSync db_path (JSON_stringify defaultStructure)] \<and>
   \<not> atomic_for (WriteFileSync db_path (JSON_stringify defaultStructure)) db_path corrupt_disk"
proof -
  have "checkJsonDb_ops sample_lib corrupt_disk =
     [WriteFileSync db_path (JSON_stringify defaultStructure)]"
    using corrupt_disk_invalid by (simp add: checkJsonDb_ops_def split: sum.splits)
  moreover have "2 \<le> length (JSON_stringify defaultStructure)"
    unfolding defaultStructure_def by (rule stringify_object_length)
  ultimately show ?thesis
    using write_not_atomic by blast
qed

text \<open>
  C6, amended. The one write of the persisted document is the
  \<^verbatim>\<open>fs.writeFileSync\<close> of the default document onto the database file itself, made
  when the load is not valid, with no temporary file and no rename. It is not atomic:
  a crash in the middle of it can leave any prefix of the document in the file.
\<close>

theorem checkJsonDb_write_in_place:
  "checkJsonDb_ops lib fs =
     (if read_and_validate lib fs = Inr () then []
      else [WriteFileSync db_path (JSON_stringify defaultStructure)]) \<and>
   \<not> atomic_for (WriteFileSync db_path (JSON_stringify defaultStructure)) db_path fs \<and>
   (\<forall>n \<le> length (JSON_stringify defaultStructure).
      Some (take n (JSON_stringify defaultStructure)) \<in>
        set (contents_on_crash
               (WriteFileSync db_path (JSON_stringify defaultStructure)) db_path fs))"
proof (intro conjI allI impI)
  show "checkJsonDb_ops lib fs =
     (if read_and_validate lib fs = Inr () then []
      else [WriteFileSync db_path (JSON_stringify defaultStructure)])"
    by (simp add: checkJsonDb_ops_def split: sum.splits)
next
  have "2 \<le> length (JSON_stringify defaultStructure)"
    unfolding defaultStructure_def by (rule stringify_object_length)
  then show "\<not> atomic_for (WriteFileSync db_path (JSON_stringify defaultStructure)) db_path fs"
    by (rule write_not_atomic)
next
  fix n
  assume "n \<le> length (JSON_stringify defaultStructure)"
  then show "Some (take n (JSON_stringify defaultStructure)) \<in>
        set (contents_on_crash
               (WriteFileSync db_path (JSON_stringify defaultStructure)) db_path fs)"
    by (rule write_crash_prefix)
qed

theorem checkJsonDb_write_in_place_witness:
  \<open>(1::nat) \<le> length (JSON_stringify defaultStructure) \<and>
   checkJsonDb_ops sample_lib corrupt_disk =
     [WriteFileSync db_path (JSON_stringify defaultStructure)] \<and>
   Some ''{'' \<in>
     set (contents_on_crash
            (WriteFileSync db_path (JSON_stringify defaultStructure)) db_path corrupt_disk)\<close>
proof -
  have len: "(1::nat) \<le> length (JSON_stringify defaultStructure)"
    using stringify_object_length [of "[]"] unfolding defaultStructure_def by simp
  have first: "take 1 (JSON_stringify defaultStructure) = ''{''"
    unfolding defaultStructure_def by simp
  note fact = checkJsonDb_write_in_place [of sample_lib corrupt_disk]
  from fact corrupt_disk_invalid have ops: "checkJsonDb_ops sample_lib corrupt_disk =
     [WriteFileSync db_path (JSON_stringify defaultStructure)]"
    by simp
  from fact len have "Some (take 1 (JSON_stringify defaultStructure)) \<in>
     set (contents_on_crash
            (WriteFileSync db_path (JSON_stringify defaultStructure)) db_path corrupt_disk)"
    by blast
  with len ops show ?thesis unfolding first by simp
qed

section \<open>Properties of the startup chain\<close>

lemma checkJsonDb_promise:
  "snd (checkJsonDb lib fs) = Fulfilled () \<or> snd (checkJsonDb lib fs) = Pending"
  by (simp add: checkJsonDb_cases)

lemma checkJsonDb_rerun_promise:
  assumes "snd (checkJsonDb lib fs) = Fulfilled ()"
  shows "snd (checkJsonDb lib (fst (checkJsonDb lib fs))) = Fulfilled ()"
proof (cases "read_and_validate lib fs = Inr ()")
  case True
  then show ?thesis by (simp add: checkJsonDb_cases)
next
  case False
  with assms have "writable fs db_path"
    by (simp add: checkJsonDb_cases split: if_splits)
  with False show ?thesis
    by (simp add: checkJsonDb_cases [of lib fs])
       (simp add: checkJsonDb_cases)
qed

lemmas chain_steps =
  startup_def startNginxRTMPServer_def checkJsonDb_step_def startWebserver_def
  listen_callback_def restoreFFMPEGProcesses_def getPublicIp_def emit_def uncaught_def

lemmas chain_splits =
  required_app.splits listen_outcome.splits option.splits

lemma startup_events:
  "events (startup lib w) =
     events w @ [Call StartNginxRTMPServer, Call CheckJsonDb] @
     (if snd (checkJsonDb lib (disk w)) \<noteq> Fulfilled () then []
      else Call StartWebserver #
        (case app w of
           RestreamerExpressAppInstance x \<Rightarrow> [LogStartupError TypeError]
         | ExpressApplication x \<Rightarrow>
             (case listen lib (penv w ''NODEJS_PORT'') of
                ListenFails \<Rightarrow> [Uncaught ListenError]
              | ListenThrows \<Rightarrow> [LogStartupError ListenError]
              | ComesToListen \<Rightarrow>
                  [Listening, BindDefaultEvents] @
                  (case websocketsReady x of
                     None \<Rightarrow> [Uncaught TypeError]
                   | Some d \<Rightarrow>
                       [ResolveWebsocketsReady (SocketIO (Server (penv w ''NODEJS_PORT''))),
                        Call CheckJsonDb, Call RestoreFFMPEGProcesses] @
                       (if restore_throws lib then [LogStartupError RestoreError]
                        else [Call GetPublicIp])))))"
proof (cases "snd (checkJsonDb lib (disk w)) = Fulfilled ()")
  case False
  with checkJsonDb_promise [of lib "disk w"] have "snd (checkJsonDb lib (disk w)) = Pending"
    by blast
  then show ?thesis
    by (simp add: chain_steps Let_def)
next
  case True
  note again = checkJsonDb_rerun_promise [OF True]
  show ?thesis
    using True again by (simp add: chain_steps Let_def split: chain_splits)
qed

lemma startup_websocketsReady:
  "websocketsReady (express_of (app (startup lib w))) =
     (if snd (checkJsonDb lib (disk w)) = Fulfilled () \<and>
         (\<exists>x. app w = ExpressApplication x) \<and>
         listen lib (penv w ''NODEJS_PORT'') = ComesToListen
      then map_option (\<lambda>d. resolve d (SocketIO (Server (penv w ''NODEJS_PORT''))))
             (websocketsReady (express_of (app w)))
      else websocketsReady (express_of (app w)))"
proof (cases "snd (checkJsonDb lib (disk w)) = Fulfilled ()")
  case False
  with checkJsonDb_promise [of lib "disk w"] have "snd (checkJsonDb lib (disk w)) = Pending"
    by blast
  then show ?thesis
    by (simp add: chain_steps Let_def)
next
  case True
  note again = checkJsonDb_rerun_promise [OF True]
  show ?thesis
    using True again by (simp add: chain_steps Let_def split: chain_splits)
qed

lemma start_js_events:
  "events (start_js a lib env0 fs) =
     [Call StartNginxRTMPServer, Call CheckJsonDb] @
     (if snd (checkJsonDb lib fs) \<noteq> Fulfilled () then []
      else Call StartWebserver #
        (case a of
           RestreamerExpressAppInstance x \<Rightarrow> [LogStartupError TypeError]
         | ExpressApplication x \<Rightarrow>
             (case listen lib (fst (bootstrap_env env0) ''NODEJS_PORT'') of
                ListenFails \<Rightarrow> [Uncaught ListenError]
              | ListenThrows \<Rightarrow> [LogStartupError ListenError]
              | ComesToListen \<Rightarrow>
                  [Listening, BindDefaultEvents] @
                  (case websocketsReady x of
                     None \<Rightarrow> [Uncaught TypeError]
                   | Some d \<Rightarrow>
                       [ResolveWebsocketsReady
                          (SocketIO (Server (fst (bootstrap_env env0) ''NODEJS_PORT''))),
                        Call CheckJsonDb, Call RestoreFFMPEGProcesses] @
                       (if restore_throws lib then [LogStartupError RestoreError]
                        else [Call GetPublicIp])))))"
  unfolding start_js_def startup_events by (simp split: chain_splits)

lemma start_js_websocketsReady:
  "websocketsReady (express_of (app (start_js a lib env0 fs))) =
     (if snd (checkJsonDb lib fs) = Fulfilled () \<and>
         (\<exists>x. a = ExpressApplication x) \<and>
         listen lib (fst (bootstrap_env env0) ''NODEJS_PORT'') = ComesToListen
      then map_option (\<lambda>d. resolve d (SocketIO (Server (fst (bootstrap_env env0) ''NODEJS_PORT''))))
             (websocketsReady (express_of a))
      else websocketsReady (express_of a))"
  unfolding start_js_def startup_websocketsReady by (cases a) simp_all

lemma app_created: "websocketsReady RestreamerExpressApp = Some Unresolved"
  by (simp add: RestreamerExpressApp_def initAlways_def createPromiseForWebsockets_def)

lemma fresh_disk_resolves: "snd (checkJsonDb sample_lib fresh_disk) = Fulfilled ()"
  by (simp add: checkJsonDb_cases) (simp add: fresh_disk_def)

lemma program_run:
  "events (program sample_lib sample_env fresh_disk) =
     [Call StartNginxRTMPServer, Call CheckJsonDb, Call StartWebserver,
      LogStartupError TypeError]"
  by (simp add: program_def start_js_events fresh_disk_resolves restreamerApp_def)




text \<open>
  C10, as stated: the deferred is resolved exactly once. In the run of the program on
  a fresh disk it is never resolved, and the method \<^verbatim>\<open>startWebserver\<close> of app.js
  leaves it unresolved when the server fails to listen.
\<close>

theorem websocketsReady_unresolved_counterexample:
  "resolutions (events (program sample_lib sample_env fresh_disk)) = [] \<and>
   websocketsReady (express_of (app (program sample_lib sample_env fresh_disk))) =
     Some Unresolved \<and>
   websocketsReady (fst (app_startWebserver ListenFails sample_env RestreamerExpressApp)) =
     Some Unresolved"
proof -
  have "resolutions (events (program sample_lib sample_env fresh_disk)) = []"
    unfolding program_run by simp
  moreover have "websocketsReady (express_of (app (program sample_lib sample_env fresh_disk))) =
     Some Unresolved"
    by (simp add: program_def start_js_websocketsReady restreamerApp_def app_created)
  moreover have
    "websocketsReady (fst (app_startWebserver ListenFails sample_env RestreamerExpressApp)) =
       Some Unresolved"
    by (simp add: app_startWebserver_def app_created)
  ultimately show ?thesis
    by simp
qed

lemma startWebserver_resolves:
  assumes "app w = ExpressApplication x" and "websocketsReady x = Some Unresolved"
    and "listen lib (penv w ''NODEJS_PORT'') = ComesToListen"
  shows "snd (startWebserver lib w) = Fulfilled () \<and>
         websocketsReady (express_of (app (fst (startWebserver lib w)))) =
           Some (Resolved (SocketIO (Server (penv w ''NODEJS_PORT'')))) \<and>
         events (fst (startWebserver lib w)) =
           events w @ [Call StartWebserver, Listening, BindDefaultEvents,
                       ResolveWebsocketsReady (SocketIO (Server (penv w ''NODEJS_PORT'')))]"
  using assms by (simp add: startWebserver_def listen_callback_def emit_def Let_def)

text \<open>
  C10, amended. The deferred \<^verbatim>\<open>websocketsReady\<close> is created unresolved by the
  constructor of app.js. Whatever object start.js holds as \<^verbatim>\<open>app\<close>, a run of the
  startup chain resolves it at most once, only after the server has come to listen
  and with the socket.io instance of that server, and a deferred that was unresolved
  at the start is resolved at the end exactly when the run has resolved it.
  \<^verbatim>\<open>startWebserver\<close> of start.js, on an express application whose server comes to
  listen, resolves the unresolved deferred in the listen callback; the method
  \<^verbatim>\<open>startWebserver\<close> of app.js resolves it, with the socket.io instance of its
  server, exactly when its server comes to listen.
\<close>

theorem websocketsReady_resolved_on_listen:
  "websocketsReady (express_of restreamerApp) = Some Unresolved \<and>
   (resolutions (events (start_js a lib env0 fs)) = [] \<or>
    resolutions (events (start_js a lib env0 fs)) =
      [SocketIO (Server (fst (bootstrap_env env0) ''NODEJS_PORT''))]) \<and>
   precedes Listening (ResolveWebsocketsReady i) (events (start_js a lib env0 fs)) \<and>
   (websocketsReady (express_of a) = Some Unresolved \<longrightarrow>
      websocketsReady (express_of (app (start_js a lib env0 fs))) =
        Some (if resolutions (events (start_js a lib env0 fs)) = [] then Unresolved
              else Resolved (SocketIO (Server (fst (bootstrap_env env0) ''NODEJS_PORT''))))) \<and>
   (app w = ExpressApplication x \<and> websocketsReady x = Some Unresolved \<and>
    listen lib (penv w ''NODEJS_PORT'') = ComesToListen \<longrightarrow>
      snd (startWebserver lib w) = Fulfilled () \<and>
      websocketsReady (express_of (app (fst (startWebserver lib w)))) =
        Some (Resolved (SocketIO (Server (penv w ''NODEJS_PORT'')))) \<and>
      events (fst (startWebserver lib w)) =
        events w @ [Call StartWebserver, Listening, BindDefaultEvents,
                    ResolveWebsocketsReady (SocketIO (Server (penv w ''NODEJS_PORT'')))]) \<and>
   websocketsReady (fst (app_startWebserver outcome env RestreamerExpressApp)) =
     Some (if outcome = ComesToListen
           then Resolved (SocketIO (Server (env ''RS_NODE_PORT''))) else Unresolved)"
proof -
  have in_class:
    "websocketsReady (fst (app_startWebserver outcome env RestreamerExpressApp)) =
       Some (if outcome = ComesToListen
             then Resolved (SocketIO (Server (env ''RS_NODE_PORT''))) else Unresolved)"
    by (cases outcome) (simp_all add: app_startWebserver_def app_created Let_def)
  have created: "websocketsReady (express_of restreamerApp) = Some Unresolved"
    by (simp add: restreamerApp_def app_created)
  have chain:
    "(resolutions (events (start_js a lib env0 fs)) = [] \<or>
      resolutions (events (start_js a lib env0 fs)) =
        [SocketIO (Server (fst (bootstrap_env env0) ''NODEJS_PORT''))]) \<and>
     precedes Listening (ResolveWebsocketsReady i) (events (start_js a lib env0 fs))"
    unfolding start_js_events by (simp split: chain_splits)
  have final: "websocketsReady (express_of a) = Some Unresolved \<longrightarrow>
      websocketsReady (express_of (app (start_js a lib env0 fs))) =
        Some (if resolutions (events (start_js a lib env0 fs)) = [] then Unresolved
              else Resolved (SocketIO (Server (fst (bootstrap_env env0) ''NODEJS_PORT''))))"
    unfolding start_js_events start_js_websocketsReady
    by (cases a) (auto split: chain_splits)
  from in_class created chain final startWebserver_resolves [of w x lib] show ?thesis
    by blast
qed

theorem websocketsReady_resolved_on_listen_witness:
  "websocketsReady (express_of restreamerApp) = Some Unresolved \<and>
   resolutions (events (program sample_lib sample_env fresh_disk)) = [] \<and>
   websocketsReady (express_of (app (program sample_lib sample_env fresh_disk))) =
     Some Unresolved \<and>
   websocketsReady
     (fst (app_startWebserver ComesToListen [''RS_NODE_PORT'' \<mapsto> ''8080''] RestreamerExpressApp)) =
     Some (Resolved (SocketIO (Server (Some ''8080'')))) \<and>
   websocketsReady (express_of (app (fst (startWebserver sample_lib
      \<lparr>penv = [''NODEJS_PORT'' \<mapsto> ''3000''], disk = fresh_disk,
       app = ExpressApplication RestreamerExpressApp, events = [],
       exit_scheduled = False, crashed = False\<rparr>)))) =
     Some (Resolved (SocketIO (Server (Some ''3000''))))"
proof -
  let ?w = "\<lparr>penv = [''NODEJS_PORT'' \<mapsto> ''3000''], disk = fresh_disk,
       app = ExpressApplication RestreamerExpressApp, events = [],
       exit_scheduled = False, crashed = False\<rparr>"
  have none: "resolutions (events (program sample_lib sample_env fresh_disk)) = []"
    unfolding program_run by simp
  have hyps: "app ?w = ExpressApplication RestreamerExpressApp \<and>
      websocketsReady RestreamerExpressApp = Some Unresolved \<and>
      listen sample_lib (penv ?w ''NODEJS_PORT'') = ComesToListen"
    by (simp add: app_created sample_lib_def)
  note fact = websocketsReady_resolved_on_listen
    [of restreamerApp sample_lib sample_env fresh_disk "SocketIO (Server (Some ''3000''))"
        ?w RestreamerExpressApp ComesToListen "[''RS_NODE_PORT'' \<mapsto> ''8080'']",
     folded program_def, unfolded none]
  from fact hyps have
    "websocketsReady (express_of (app (fst (startWebserver sample_lib ?w)))) =
       Some (Resolved (SocketIO (Server (penv ?w ''NODEJS_PORT''))))"
    by blast
  then have start: "websocketsReady (express_of (app (fst (startWebserver sample_lib ?w)))) =
       Some (Resolved (SocketIO (Server (Some ''3000''))))"
    by simp
  from fact have real: "websocketsReady (express_of restreamerApp) = Some Unresolved \<and>
      websocketsReady (express_of (app (program sample_lib sample_env fresh_disk))) =
        Some Unresolved \<and>
      websocketsReady
        (fst (app_startWebserver ComesToListen [''RS_NODE_PORT'' \<mapsto> ''8080'']
                RestreamerExpressApp)) =
        Some (Resolved (SocketIO (Server (Some ''8080''))))"
    by simp
  from real none start show ?thesis
    by blast
qed

section \<open>Properties of the slot restore\<close>

lemma restoreAll_nth:
  "i < length slots \<Longrightarrow> restoreAll slots ! i = restore_slot i (slots ! i)"
  by (simp add: restoreAll_def nth_enumerate_eq)

text \<open>
  C7. After the restore every slot whose persisted intent is start has a new
  subprocess and is in state starting, and every slot whose persisted intent is stop
  is in state stopped, whatever its persisted run state was; name and intent of a
  slot are kept.
\<close>

theorem restoreAll_by_intent:
  assumes "i < length slots"
  shows "length (restoreAll slots) = length slots \<and>
         slot_name (restoreAll slots ! i) = slot_name (slots ! i) \<and>
         userIntent (restoreAll slots ! i) = userIntent (slots ! i) \<and>
         (userIntent (slots ! i) = Start \<longrightarrow>
            runState (restoreAll slots ! i) = Starting \<and>
            processHandle (restoreAll slots ! i) = Some i) \<and>
         (userIntent (slots ! i) = Stop \<longrightarrow>
            runState (restoreAll slots ! i) = Stopped \<and>
            processHandle (restoreAll slots ! i) = None)"
proof -
  have "length (restoreAll slots) = length slots"
    by (simp add: restoreAll_def)
  moreover note restoreAll_nth [OF assms]
  ultimately show ?thesis
    by (cases "userIntent (slots ! i)") (simp_all add: restore_slot_def)
qed

theorem restoreAll_by_intent_witness:
  "(0::nat) < length persisted_slots \<and> (1::nat) < length persisted_slots \<and>
   userIntent (persisted_slots ! 0) = Start \<and> runState (persisted_slots ! 0) = Started \<and>
   runState (restoreAll persisted_slots ! 0) = Starting \<and>
   processHandle (restoreAll persisted_slots ! 0) = Some 0 \<and>
   userIntent (persisted_slots ! 1) = Stop \<and> runState (persisted_slots ! 1) = Error \<and>
   runState (restoreAll persisted_slots ! 1) = Stopped \<and>
   processHandle (restoreAll persisted_slots ! 1) = None"
proof -
  have len: "(0::nat) < length persisted_slots" "(1::nat) < length persisted_slots"
    by (simp_all add: persisted_slots_def)
  have first: "userIntent (persisted_slots ! 0) = Start \<and> runState (persisted_slots ! 0) = Started"
    by (simp add: persisted_slots_def)
  have second: "userIntent (persisted_slots ! 1) = Stop \<and> runState (persisted_slots ! 1) = Error"
    by (simp add: persisted_slots_def)
  from restoreAll_by_intent [OF len(1)] restoreAll_by_intent [OF len(2)] first second len
  show ?thesis
    by blast
qed

end
